theory Spec2Isabelle
  imports Complex_Main "HOL-Library.Multiset" "HOL-Library.AList"
begin

text \<open>
  The gamma exposure analytics of \<^verbatim>\<open>web-app/calculations.js\<close>: the Black-Scholes gamma
  and the signed exposure of a contract (\<^verbatim>\<open>GammaCalculator\<close>), the aggregation by strike,
  the call and put walls (\<^verbatim>\<open>WallAnalyzer\<close>), the metrics and the gamma environment
  (\<^verbatim>\<open>MetricsCalculator\<close>) and the averages behind the expected move
  (\<^verbatim>\<open>ExpectedMoveCalculator\<close>), each function under the name it has in the source.
\<close>

section \<open>JavaScript numbers\<close>

text \<open>
  The engine computes on JavaScript numbers. A number is
  modelled here as a real or one of the three special values of IEEE arithmetic, with the
  special-value rules of the language's operators written out (division by zero, the
  logarithm of a non-positive number, comparisons with \<^verbatim>\<open>NaN\<close>) and the underflow and
  overflow of \<^verbatim>\<open>Math.exp\<close>. The four arithmetic operations are exact on finite operands:
  the rounding of a result to 53 bits, the overflow and underflow of a sum, product or
  quotient and the sign of zero are not part of the model.
\<close>

datatype jsnum = Fin real | PInf | NInf | NaN

instantiation jsnum :: comm_monoid_add
begin

definition zero_jsnum :: jsnum where
  "zero_jsnum = Fin 0"

fun plus_jsnum :: "jsnum \<Rightarrow> jsnum \<Rightarrow> jsnum" where
  "plus_jsnum NaN _ = NaN"
| "plus_jsnum _ NaN = NaN"
| "plus_jsnum (Fin a) (Fin b) = Fin (a + b)"
| "plus_jsnum (Fin a) PInf = PInf"
| "plus_jsnum (Fin a) NInf = NInf"
| "plus_jsnum PInf (Fin b) = PInf"
| "plus_jsnum NInf (Fin b) = NInf"
| "plus_jsnum PInf PInf = PInf"
| "plus_jsnum NInf NInf = NInf"
| "plus_jsnum PInf NInf = NaN"
| "plus_jsnum NInf PInf = NaN"

instance
proof
  show "0 + u = u" for u :: jsnum
    by (cases u; simp add: zero_jsnum_def)
  show "u + v = v + u" for u v :: jsnum
    by (cases u; cases v; simp)
  show "u + v + w = u + (v + w)" for u v w :: jsnum
    by (cases u; cases v; cases w; simp)
qed

end

text \<open>Unary minus, and \<^verbatim>\<open>a - b\<close> as \<^verbatim>\<open>a + (-b)\<close>.\<close>

fun js_neg :: "jsnum \<Rightarrow> jsnum" where
  "js_neg (Fin a) = Fin (- a)"
| "js_neg PInf = NInf"
| "js_neg NInf = PInf"
| "js_neg NaN = NaN"

definition js_sub :: "jsnum \<Rightarrow> jsnum \<Rightarrow> jsnum" where
  "js_sub a b = a + js_neg b"

text \<open>\<^verbatim>\<open>a * b\<close>: an infinity times zero is \<^verbatim>\<open>NaN\<close>.\<close>

fun js_mul :: "jsnum \<Rightarrow> jsnum \<Rightarrow> jsnum" where
  "js_mul NaN _ = NaN"
| "js_mul _ NaN = NaN"
| "js_mul (Fin a) (Fin b) = Fin (a * b)"
| "js_mul (Fin a) PInf = (if a = 0 then NaN else if 0 < a then PInf else NInf)"
| "js_mul (Fin a) NInf = (if a = 0 then NaN else if 0 < a then NInf else PInf)"
| "js_mul PInf (Fin b) = (if b = 0 then NaN else if 0 < b then PInf else NInf)"
| "js_mul NInf (Fin b) = (if b = 0 then NaN else if 0 < b then NInf else PInf)"
| "js_mul PInf PInf = PInf"
| "js_mul NInf NInf = PInf"
| "js_mul PInf NInf = NInf"
| "js_mul NInf PInf = NInf"

text \<open>
  \<^verbatim>\<open>a / b\<close>: a non-zero number over zero is an infinity, zero over zero and an infinity
  over an infinity are \<^verbatim>\<open>NaN\<close>, a finite number over an infinity is zero.
\<close>

fun js_div :: "jsnum \<Rightarrow> jsnum \<Rightarrow> jsnum" where
  "js_div NaN _ = NaN"
| "js_div _ NaN = NaN"
| "js_div (Fin a) (Fin b) =
     (if b = 0 then (if a = 0 then NaN else if 0 < a then PInf else NInf)
      else Fin (a / b))"
| "js_div (Fin a) PInf = Fin 0"
| "js_div (Fin a) NInf = Fin 0"
| "js_div PInf (Fin b) = (if 0 \<le> b then PInf else NInf)"
| "js_div NInf (Fin b) = (if 0 \<le> b then NInf else PInf)"
| "js_div PInf PInf = NaN"
| "js_div NInf NInf = NaN"
| "js_div PInf NInf = NaN"
| "js_div NInf PInf = NaN"

text \<open>
  \<^verbatim>\<open>Math.abs\<close>, \<^verbatim>\<open>Math.sqrt\<close>, \<^verbatim>\<open>Math.exp\<close>, \<^verbatim>\<open>Math.log\<close>. The exponential leaves the
  range of the doubles on ordinary arguments, so its two ends are part of the model: an
  exponential below \<open>2 ^ -1075\<close>, half of the smallest positive double, is zero (the
  argument is then below \<open>- 1075 * ln 2\<close>, about -745.13), and one of \<open>2 ^ 1024\<close> or
  more is plus infinity.
\<close>

fun js_abs :: "jsnum \<Rightarrow> jsnum" where
  "js_abs (Fin a) = Fin \<bar>a\<bar>"
| "js_abs PInf = PInf"
| "js_abs NInf = PInf"
| "js_abs NaN = NaN"

fun js_sqrt :: "jsnum \<Rightarrow> jsnum" where
  "js_sqrt (Fin a) = (if a < 0 then NaN else Fin (sqrt a))"
| "js_sqrt PInf = PInf"
| "js_sqrt NInf = NaN"
| "js_sqrt NaN = NaN"

fun js_exp :: "jsnum \<Rightarrow> jsnum" where
  "js_exp (Fin a) =
     (if a < - 1075 * ln 2 then Fin 0
      else if 1024 * ln 2 \<le> a then PInf
      else Fin (exp a))"
| "js_exp PInf = PInf"
| "js_exp NInf = Fin 0"
| "js_exp NaN = NaN"

fun js_log :: "jsnum \<Rightarrow> jsnum" where
  "js_log (Fin a) = (if a < 0 then NaN else if a = 0 then NInf else Fin (ln a))"
| "js_log PInf = PInf"
| "js_log NInf = NaN"
| "js_log NaN = NaN"

text \<open>
  The comparisons \<^verbatim>\<open>a < b\<close> and \<^verbatim>\<open>a <= b\<close>; \<^verbatim>\<open>a > b\<close> is \<open>js_lt b a\<close> and
  \<^verbatim>\<open>a >= b\<close> is \<open>js_le b a\<close>. Every comparison with \<^verbatim>\<open>NaN\<close> is false.
\<close>

fun js_lt :: "jsnum \<Rightarrow> jsnum \<Rightarrow> bool" where
  "js_lt (Fin a) (Fin b) = (a < b)"
| "js_lt (Fin a) PInf = True"
| "js_lt NInf (Fin b) = True"
| "js_lt NInf PInf = True"
| "js_lt _ _ = False"

fun js_le :: "jsnum \<Rightarrow> jsnum \<Rightarrow> bool" where
  "js_le (Fin a) (Fin b) = (a \<le> b)"
| "js_le (Fin a) PInf = True"
| "js_le NInf (Fin b) = True"
| "js_le NInf PInf = True"
| "js_le PInf PInf = True"
| "js_le NInf NInf = True"
| "js_le _ _ = False"

text \<open>\<^verbatim>\<open>Number.isFinite\<close>.\<close>

fun js_isFinite :: "jsnum \<Rightarrow> bool" where
  "js_isFinite (Fin a) = True"
| "js_isFinite _ = False"

section \<open>GammaCalculator\<close>

text \<open>
  An option contract as the engine reads it. The fields are finite numbers (the open
  interest an integer); the option type is the string the parser stored (\<^verbatim>\<open>'call'\<close>, or
  anything else, which the engine reads as a put). A field name that several objects of
  the source share (\<^verbatim>\<open>strike\<close>, \<^verbatim>\<open>optionType\<close>, \<^verbatim>\<open>openInterest\<close>) keeps its name in the
  record of the contract and carries a prefix in the other records.
\<close>

record contract =
  strike :: real
  optionType :: string
  openInterest :: int
  impliedVolatility :: real
  daysToExpiry :: real

text \<open>\<^verbatim>\<open>normPDF(x) = Math.exp(-0.5 * x * x) / Math.sqrt(2 * Math.PI)\<close>\<close>

definition normPDF :: "jsnum \<Rightarrow> jsnum" where
  "normPDF x = js_div (js_exp (js_mul (js_mul (Fin (- 0.5)) x) x)) (js_sqrt (Fin (2 * pi)))"

text \<open>\<^verbatim>\<open>calculateD1\<close>; the risk-free rate is the constructor's \<^verbatim>\<open>this.riskFreeRate\<close>.\<close>

definition calculateD1 :: "real \<Rightarrow> real \<Rightarrow> real \<Rightarrow> real \<Rightarrow> real \<Rightarrow> jsnum" where
  "calculateD1 riskFreeRate spotPrice k timeToExpiry volatility =
     (let numerator = js_log (js_div (Fin spotPrice) (Fin k))
                      + Fin ((riskFreeRate + 0.5 * volatility * volatility) * timeToExpiry);
          denominator = js_mul (Fin volatility) (js_sqrt (Fin timeToExpiry))
      in js_div numerator denominator)"

definition calculateGamma :: "real \<Rightarrow> real \<Rightarrow> real \<Rightarrow> real \<Rightarrow> real \<Rightarrow> jsnum" where
  "calculateGamma riskFreeRate spotPrice k timeToExpiry volatility =
     (if timeToExpiry \<le> 0 then Fin 0
      else let d1 = calculateD1 riskFreeRate spotPrice k timeToExpiry volatility
           in js_div (normPDF d1)
                (js_mul (js_mul (Fin spotPrice) (Fin volatility)) (js_sqrt (Fin timeToExpiry))))"

text \<open>The record \<^verbatim>\<open>calculateGammaExposure\<close> returns.\<close>

record exposure =
  x_strike :: real
  x_optionType :: string
  gamma :: jsnum
  gammaExposure :: jsnum
  x_openInterest :: int

definition calculateGammaExposure :: "real \<Rightarrow> contract \<Rightarrow> real \<Rightarrow> exposure" where
  "calculateGammaExposure riskFreeRate c spotPrice =
     (let timeToExpiry = daysToExpiry c / 365;
          g = calculateGamma riskFreeRate spotPrice (strike c) timeToExpiry (impliedVolatility c);
          ge = js_mul (js_mul (js_mul (js_mul g (Fin (real_of_int (openInterest c)))) (Fin 100))
                  (Fin spotPrice)) (Fin spotPrice);
          mmGamma = (if optionType c = ''call'' then js_neg ge else ge)
      in \<lparr> x_strike = strike c, x_optionType = optionType c, gamma = g,
           gammaExposure = mmGamma, x_openInterest = openInterest c \<rparr>)"

text \<open>
  \<^verbatim>\<open>Array.prototype.sort\<close> with a comparator. The sort of the language is stable, and an
  element moves behind another only when the comparator is positive on the pair (a
  \<^verbatim>\<open>NaN\<close> result counts as zero): insertion from the right, each element placed before
  the first one it is not greater than. The comparators of the engine are differences of
  one numeric key, which order the elements consistently, so the sorted array does not
  depend on the algorithm the language's implementation uses.
\<close>

fun js_insert :: "('a \<Rightarrow> 'a \<Rightarrow> jsnum) \<Rightarrow> 'a \<Rightarrow> 'a list \<Rightarrow> 'a list" where
  "js_insert cmp x [] = [x]"
| "js_insert cmp x (y # ys) =
     (if js_lt (Fin 0) (cmp x y) then y # js_insert cmp x ys else x # y # ys)"

definition js_sort :: "('a \<Rightarrow> 'a \<Rightarrow> jsnum) \<Rightarrow> 'a list \<Rightarrow> 'a list" where
  "js_sort cmp xs = foldr (js_insert cmp) xs []"

text \<open>
  One aggregate per strike. The \<^verbatim>\<open>Map\<close> of \<^verbatim>\<open>aggregateByStrike\<close> is an association list
  in insertion order; the objects it holds are mutated in place, which is an update of
  the entry where it stands.
\<close>

record strikeData =
  sd_strike :: real
  callGamma :: jsnum
  putGamma :: jsnum
  netGamma :: jsnum
  totalOI :: int

type_synonym strikeMap = "(real \<times> strikeData) list"

definition updateStrikeData :: "exposure \<Rightarrow> strikeData \<Rightarrow> strikeData" where
  "updateStrikeData e sd =
     (let sd1 = (if x_optionType e = ''call''
                 then sd\<lparr>callGamma := callGamma sd + gammaExposure e\<rparr>
                 else sd\<lparr>putGamma := putGamma sd + gammaExposure e\<rparr>);
          sd2 = sd1\<lparr>netGamma := callGamma sd1 + putGamma sd1\<rparr>
      in sd2\<lparr>totalOI := totalOI sd2 + x_openInterest e\<rparr>)"

text \<open>The body of the \<^verbatim>\<open>forEach\<close>: one contract folded into the map.\<close>

definition addContract :: "real \<Rightarrow> real \<Rightarrow> strikeMap \<Rightarrow> contract \<Rightarrow> strikeMap" where
  "addContract riskFreeRate spotPrice m c =
     (let e = calculateGammaExposure riskFreeRate c spotPrice;
          m1 = (if map_of m (x_strike e) = None
                then m @ [(x_strike e,
                       \<lparr> sd_strike = x_strike e, callGamma = 0, putGamma = 0,
                         netGamma = 0, totalOI = 0 \<rparr>)]
                else m)
      in AList.map_entry (x_strike e) (updateStrikeData e) m1)"

definition aggregateByStrike :: "real \<Rightarrow> contract list \<Rightarrow> real \<Rightarrow> strikeData list" where
  "aggregateByStrike riskFreeRate contracts spotPrice =
     js_sort (\<lambda>a b. js_sub (Fin (sd_strike a)) (Fin (sd_strike b)))
       (map snd (foldl (addContract riskFreeRate spotPrice) [] contracts))"

section \<open>WallAnalyzer\<close>

record candidate =
  c_strike :: real
  exposure :: jsnum
  rawExposure :: jsnum
  distance :: real

record wall =
  w_strike :: real
  exposureValue :: jsnum
  wallType :: string
  distanceFromSpot :: real
  significanceRank :: nat

text \<open>
  \<^verbatim>\<open>xs.slice(0, end)\<close> for an integer \<^verbatim>\<open>end\<close>: a negative end counts from the end of the
  array.
\<close>

definition js_slice0 :: "'a list \<Rightarrow> int \<Rightarrow> 'a list" where
  "js_slice0 xs e = (if e < 0 then take (nat (int (length xs) + e)) xs else take (nat e) xs)"

text \<open>
  The significance threshold is the constructor's \<^verbatim>\<open>this.minSignificanceThreshold\<close>
  (default 0.05); \<^verbatim>\<open>maxWalls\<close> defaults to 5.
\<close>

definition findCallWalls :: "real \<Rightarrow> strikeData list \<Rightarrow> real \<Rightarrow> int \<Rightarrow> wall list" where
  "findCallWalls minSignificanceThreshold gammaExposures currentPrice maxWalls =
     (let callCandidates =
            js_sort (\<lambda>a b. js_sub (exposure b) (exposure a))
              (map (\<lambda>ge. \<lparr> c_strike = sd_strike ge, exposure = js_abs (callGamma ge),
                           rawExposure = callGamma ge,
                           distance = \<bar>sd_strike ge - currentPrice\<bar> \<rparr>)
                 (filter (\<lambda>ge. js_lt (callGamma ge) (Fin 0)) gammaExposures))
      in if length callCandidates = 0 then []
         else
           let totalCallExposure = foldl (\<lambda>sum c. sum + exposure c) 0 callCandidates;
               threshold = js_mul totalCallExposure (Fin minSignificanceThreshold)
           in map (\<lambda>(index, c).
                     \<lparr> w_strike = c_strike c, exposureValue = rawExposure c,
                       wallType = ''call_wall'', distanceFromSpot = distance c,
                       significanceRank = index + 1 \<rparr>)
                (enumerate 0
                   (js_slice0 (filter (\<lambda>c. js_le threshold (exposure c)) callCandidates)
                      maxWalls)))"

definition findPutWalls :: "real \<Rightarrow> strikeData list \<Rightarrow> real \<Rightarrow> int \<Rightarrow> wall list" where
  "findPutWalls minSignificanceThreshold gammaExposures currentPrice maxWalls =
     (let putCandidates =
            js_sort (\<lambda>a b. js_sub (exposure b) (exposure a))
              (map (\<lambda>ge. \<lparr> c_strike = sd_strike ge, exposure = putGamma ge,
                           rawExposure = putGamma ge,
                           distance = \<bar>sd_strike ge - currentPrice\<bar> \<rparr>)
                 (filter (\<lambda>ge. js_lt (Fin 0) (putGamma ge)) gammaExposures))
      in if length putCandidates = 0 then []
         else
           let totalPutExposure = foldl (\<lambda>sum c. sum + exposure c) 0 putCandidates;
               threshold = js_mul totalPutExposure (Fin minSignificanceThreshold)
           in map (\<lambda>(index, c).
                     \<lparr> w_strike = c_strike c, exposureValue = rawExposure c,
                       wallType = ''put_wall'', distanceFromSpot = distance c,
                       significanceRank = index + 1 \<rparr>)
                (enumerate 0
                   (js_slice0 (filter (\<lambda>c. js_le threshold (exposure c)) putCandidates)
                      maxWalls)))"

section \<open>MetricsCalculator\<close>

text \<open>
  \<^verbatim>\<open>Math.min(...xs)\<close> and \<^verbatim>\<open>Math.max(...xs)\<close>: the infinities on the empty list, \<^verbatim>\<open>NaN\<close>
  as soon as one argument is \<^verbatim>\<open>NaN\<close>.
\<close>

definition js_min2 :: "jsnum \<Rightarrow> jsnum \<Rightarrow> jsnum" where
  "js_min2 a b = (if a = NaN \<or> b = NaN then NaN else if js_lt b a then b else a)"

definition js_max2 :: "jsnum \<Rightarrow> jsnum \<Rightarrow> jsnum" where
  "js_max2 a b = (if a = NaN \<or> b = NaN then NaN else if js_lt a b then b else a)"

definition js_min_list :: "jsnum list \<Rightarrow> jsnum" where
  "js_min_list xs = foldl js_min2 PInf xs"

definition js_max_list :: "jsnum list \<Rightarrow> jsnum" where
  "js_max_list xs = foldl js_max2 NInf xs"

text \<open>\<^verbatim>\<open>Math.pow(x, 2)\<close>\<close>

definition js_pow2 :: "jsnum \<Rightarrow> jsnum" where
  "js_pow2 x = js_mul x x"

record metrics =
  totalNetGamma :: jsnum
  totalCallGamma :: jsnum
  totalPutGamma :: jsnum
  gammaWeightedAvgStrike :: jsnum
  callPutGammaRatio :: jsnum
  maxCallExposure :: jsnum
  maxPutExposure :: jsnum
  gammaExposureStd :: jsnum

text \<open>The local \<^verbatim>\<open>totalAbsGamma\<close> of \<^verbatim>\<open>calculateAllMetrics\<close>.\<close>

definition totalAbsGamma :: "strikeData list \<Rightarrow> jsnum" where
  "totalAbsGamma gammaExposures = foldl (\<lambda>sum ge. sum + js_abs (netGamma ge)) 0 gammaExposures"

definition calculateAllMetrics :: "strikeData list \<Rightarrow> metrics" where
  "calculateAllMetrics gammaExposures =
     (let totalNet = foldl (\<lambda>sum ge. sum + netGamma ge) 0 gammaExposures;
          totalCall = foldl (\<lambda>sum ge. sum + callGamma ge) 0 gammaExposures;
          totalPut = foldl (\<lambda>sum ge. sum + putGamma ge) 0 gammaExposures;
          weightedStrike =
            js_div (foldl (\<lambda>sum ge. sum + js_mul (Fin (sd_strike ge)) (js_abs (netGamma ge)))
                      0 gammaExposures)
              (totalAbsGamma gammaExposures);
          callPutRatio = js_abs (js_div totalCall totalPut);
          maxCall = js_min_list (map callGamma gammaExposures);
          maxPut = js_max_list (map putGamma gammaExposures);
          mean = js_div totalNet (Fin (real (length gammaExposures)));
          variance =
            js_div (foldl (\<lambda>sum ge. sum + js_pow2 (js_sub (netGamma ge) mean)) 0 gammaExposures)
              (Fin (real (length gammaExposures)));
          stdDev = js_sqrt variance
      in \<lparr> totalNetGamma = totalNet, totalCallGamma = totalCall, totalPutGamma = totalPut,
           gammaWeightedAvgStrike = weightedStrike, callPutGammaRatio = callPutRatio,
           maxCallExposure = maxCall, maxPutExposure = maxPut, gammaExposureStd = stdDev \<rparr>)"

text \<open>
  The condition of the \<^verbatim>\<open>if\<close> in the loop that looks for the gamma flip level: one net
  gamma above zero and the other below.
\<close>

definition signChange :: "strikeData \<Rightarrow> strikeData \<Rightarrow> bool" where
  "signChange current nxt \<longleftrightarrow>
     (js_lt (Fin 0) (netGamma current) \<and> js_lt (netGamma nxt) (Fin 0))
     \<or> (js_lt (netGamma current) (Fin 0) \<and> js_lt (Fin 0) (netGamma nxt))"

text \<open>
  The loop itself, over the adjacent pairs from the front: the midpoint of the first pair
  that satisfies the condition, and \<^verbatim>\<open>null\<close> (\<open>None\<close>) when the loop ends without
  one.
\<close>

fun findGammaFlip :: "strikeData list \<Rightarrow> real option" where
  "findGammaFlip (current # nxt # rest) =
     (if signChange current nxt
      then Some ((sd_strike current + sd_strike nxt) / 2)
      else findGammaFlip (nxt # rest))"
| "findGammaFlip _ = None"

text \<open>
  The record \<^verbatim>\<open>calculateGammaEnvironment\<close> returns, without its display texts (the
  colour, the volatility impact and the two descriptions), which are fixed strings
  chosen by \<open>environment\<close> and \<open>strengthLevel\<close>.
\<close>

record gammaEnvironment =
  environment :: string
  environmentStrength :: jsnum
  strengthLevel :: string
  gammaFlipLevel :: "real option"
  positiveStrikes :: nat
  negativeStrikes :: nat
  neutralStrikes :: nat
  positiveStrikePercentage :: jsnum
  negativeStrikePercentage :: jsnum

definition calculateGammaEnvironment :: "strikeData list \<Rightarrow> real \<Rightarrow> gammaEnvironment" where
  "calculateGammaEnvironment gammaExposures currentPrice =
     (let m = calculateAllMetrics gammaExposures;
          env = (if js_lt (Fin 0) (totalNetGamma m) then ''positive''
                 else if js_lt (totalNetGamma m) (Fin 0) then ''negative'' else ''neutral'');
          totalOpenInterest = foldl (\<lambda>sum ge. sum + totalOI ge) 0 gammaExposures;
          strength = js_div (js_abs (totalNetGamma m))
                       (Fin (currentPrice * real_of_int totalOpenInterest));
          level = (if js_le (Fin 0.10) strength then ''Very Strong''
                   else if js_le (Fin 0.05) strength then ''Strong''
                   else if js_le (Fin 0.02) strength then ''Moderate''
                   else if js_le (Fin 0.01) strength then ''Weak''
                   else ''Very Weak'');
          pos = length (filter (\<lambda>ge. js_lt (Fin 0) (netGamma ge)) gammaExposures);
          neg = length (filter (\<lambda>ge. js_lt (netGamma ge) (Fin 0)) gammaExposures);
          neu = length (filter (\<lambda>ge. netGamma ge = Fin 0) gammaExposures);
          totalStrikes = length gammaExposures
      in \<lparr> environment = env, environmentStrength = strength, strengthLevel = level,
           gammaFlipLevel = findGammaFlip gammaExposures,
           positiveStrikes = pos, negativeStrikes = neg, neutralStrikes = neu,
           positiveStrikePercentage =
             js_mul (js_div (Fin (real pos)) (Fin (real totalStrikes))) (Fin 100),
           negativeStrikePercentage =
             js_mul (js_div (Fin (real neg)) (Fin (real totalStrikes))) (Fin 100) \<rparr>)"

section \<open>ExpectedMoveCalculator\<close>

text \<open>
  \<^verbatim>\<open>getAverageIVAndDTE(contracts)\<close> reads \<^verbatim>\<open>window.currentPrice\<close>. The global object is
  part of the state the function runs in: its property is a number, or absent
  (\<^verbatim>\<open>undefined\<close>, \<open>None\<close>). \<^verbatim>\<open>window.currentPrice || 450\<close> is 450 when the property
  is falsy: absent, zero or \<^verbatim>\<open>NaN\<close>.
\<close>

record window =
  currentPrice :: "jsnum option"

definition ambientPrice :: "window \<Rightarrow> jsnum" where
  "ambientPrice w =
     (case currentPrice w of
        None \<Rightarrow> Fin 450
      | Some v \<Rightarrow> if v = Fin 0 \<or> v = NaN then Fin 450 else v)"

record averages =
  atmIV :: jsnum
  overallAvgIV :: jsnum
  avgDTE :: jsnum

text \<open>
  The argument is \<open>None\<close> for \<^verbatim>\<open>null\<close> or \<^verbatim>\<open>undefined\<close>. An object
  \<^verbatim>\<open>{contract, distance}\<close> is a pair. The debug output written with \<^verbatim>\<open>console.log\<close> does
  not reach the result and is left out.
\<close>

definition getAverageIVAndDTE :: "window \<Rightarrow> contract list option \<Rightarrow> averages" where
  "getAverageIVAndDTE w contracts =
     (case contracts of
        None \<Rightarrow> \<lparr> atmIV = Fin 0, overallAvgIV = Fin 0, avgDTE = Fin 0 \<rparr>
      | Some cs \<Rightarrow>
          if length cs = 0 then \<lparr> atmIV = Fin 0, overallAvgIV = Fin 0, avgDTE = Fin 0 \<rparr>
          else
            let totalIV = foldl (\<lambda>sum c. sum + impliedVolatility c) 0 cs;
                overallAvg = js_div (Fin totalIV) (Fin (real (length cs)));
                contractsWithDistance =
                  js_sort (\<lambda>a b. js_sub (snd a) (snd b))
                    (map (\<lambda>c. (c, js_abs (js_sub (Fin (strike c)) (ambientPrice w)))) cs);
                numATMContracts = min 10 (length contractsWithDistance);
                atmContracts = take numATMContracts contractsWithDistance;
                atmIVSum = foldl (\<lambda>sum item. sum + impliedVolatility (fst item)) 0 atmContracts;
                atm = js_div (Fin atmIVSum) (Fin (real (length atmContracts)));
                totalDTE = foldl (\<lambda>sum c. sum + daysToExpiry c) 0 cs;
                avg = js_div (Fin totalDTE) (Fin (real (length cs)))
            in \<lparr> atmIV = atm, overallAvgIV = overallAvg, avgDTE = avg \<rparr>)"

section \<open>Closed forms and sample data used in the statements\<close>

text \<open>
  The totals of one strike written as sums over the contract list: what the fold of
  \<open>aggregateByStrike\<close> is shown to compute for the strike \<open>k\<close>.
\<close>

definition strikeTotals :: "real \<Rightarrow> real \<Rightarrow> contract list \<Rightarrow> real \<Rightarrow> strikeData" where
  "strikeTotals r spot cs k =
     (let callSum = sum_list (map (\<lambda>c. gammaExposure (calculateGammaExposure r c spot))
                       (filter (\<lambda>c. strike c = k \<and> optionType c = ''call'') cs));
          putSum = sum_list (map (\<lambda>c. gammaExposure (calculateGammaExposure r c spot))
                       (filter (\<lambda>c. strike c = k \<and> optionType c \<noteq> ''call'') cs))
      in \<lparr> sd_strike = k, callGamma = callSum, putGamma = putSum,
           netGamma = callSum + putSum,
           totalOI = sum_list (map openInterest (filter (\<lambda>c. strike c = k) cs)) \<rparr>)"

text \<open>
  The validity of a contract in the words of the specification (its section 7): a
  positive strike, a non-negative open interest, a positive implied volatility. No
  function of the source computes it; it only states what the aggregation is compared
  with.
\<close>

definition spec_validContract :: "contract \<Rightarrow> bool" where
  "spec_validContract c = (0 < strike c \<and> 0 \<le> openInterest c \<and> 0 < impliedVolatility c)"

definition sampleCall :: contract where
  "sampleCall = \<lparr> strike = 100, optionType = ''call'', openInterest = 1000,
                  impliedVolatility = 0.2, daysToExpiry = 30 \<rparr>"

definition samplePut :: contract where
  "samplePut = \<lparr> strike = 100, optionType = ''put'', openInterest = 500,
                 impliedVolatility = 0.2, daysToExpiry = 30 \<rparr>"

definition sampleCall95 :: contract where
  "sampleCall95 = \<lparr> strike = 95, optionType = ''call'', openInterest = 800,
                    impliedVolatility = 0.25, daysToExpiry = 30 \<rparr>"

text \<open>Net gamma of signs +, +, -, + at the strikes 100, 101, 102, 103.\<close>

definition scenarioE :: "strikeData list" where
  "scenarioE =
     [\<lparr> sd_strike = 100, callGamma = Fin (- 1), putGamma = Fin 3, netGamma = Fin 2, totalOI = 10 \<rparr>,
      \<lparr> sd_strike = 101, callGamma = Fin (- 2), putGamma = Fin 3, netGamma = Fin 1, totalOI = 10 \<rparr>,
      \<lparr> sd_strike = 102, callGamma = Fin (- 4), putGamma = Fin 1, netGamma = Fin (- 3), totalOI = 10 \<rparr>,
      \<lparr> sd_strike = 103, callGamma = Fin (- 1), putGamma = Fin 5, netGamma = Fin 4, totalOI = 10 \<rparr>]"

text \<open>An aggregate with no exposure at all, and one with call exposure only.\<close>

definition zeroAggregate :: strikeData where
  "zeroAggregate =
     \<lparr> sd_strike = 100, callGamma = Fin 0, putGamma = Fin 0, netGamma = Fin 0, totalOI = 0 \<rparr>"

definition callOnlyAggregate :: strikeData where
  "callOnlyAggregate =
     \<lparr> sd_strike = 100, callGamma = Fin (- 5), putGamma = Fin 0, netGamma = Fin (- 5),
       totalOI = 10 \<rparr>"

text \<open>
  Eleven contracts: one at the strike 500 with an implied volatility of 0.5, then ten at
  the strike 100 with 0.2.
\<close>

definition farContract :: contract where
  "farContract = \<lparr> strike = 500, optionType = ''call'', openInterest = 10,
                   impliedVolatility = 0.5, daysToExpiry = 30 \<rparr>"

definition elevenContracts :: "contract list" where
  "elevenContracts =
     [farContract, sampleCall, sampleCall, sampleCall, sampleCall, sampleCall,
      sampleCall, sampleCall, sampleCall, sampleCall, sampleCall]"

definition negativeOICall :: contract where
  "negativeOICall = \<lparr> strike = 105, optionType = ''call'', openInterest = - 5,
                      impliedVolatility = 0.2, daysToExpiry = 30 \<rparr>"

text \<open>
  A predicate used in the proofs: a number that is not below zero (the shape of every
  \<^verbatim>\<open>Math.abs\<close> result).
\<close>

fun magnitude :: "jsnum \<Rightarrow> bool" where
  "magnitude (Fin a) = (0 \<le> a)"
| "magnitude NInf = False"
| "magnitude _ = True"

text \<open>An aggregate whose call exposure is minus infinity.\<close>

definition infiniteCallAggregate :: strikeData where
  "infiniteCallAggregate =
     \<lparr> sd_strike = 100, callGamma = NInf, putGamma = Fin 0, netGamma = NInf, totalOI = 10 \<rparr>"

text \<open>
  Five aggregates for the wall analysis: call exposure 90, 6 and 4 in magnitude, put
  exposure 97 and 3.
\<close>

definition wallSample :: "strikeData list" where
  "wallSample =
     [\<lparr> sd_strike = 90, callGamma = Fin 0, putGamma = Fin 3, netGamma = Fin 3, totalOI = 5 \<rparr>,
      \<lparr> sd_strike = 95, callGamma = Fin 0, putGamma = Fin 97, netGamma = Fin 97, totalOI = 50 \<rparr>,
      \<lparr> sd_strike = 100, callGamma = Fin (- 90), putGamma = Fin 0, netGamma = Fin (- 90), totalOI = 40 \<rparr>,
      \<lparr> sd_strike = 105, callGamma = Fin (- 6), putGamma = Fin 0, netGamma = Fin (- 6), totalOI = 8 \<rparr>,
      \<lparr> sd_strike = 110, callGamma = Fin (- 4), putGamma = Fin 0, netGamma = Fin (- 4), totalOI = 6 \<rparr>]"

section \<open>Properties of the gamma formula\<close>

lemma ln2_bounds: "1 / 2 \<le> ln (2::real)" "ln (2::real) \<le> 1"
proof -
  have "exp (1 / 2 :: real) \<le> 1 + 1 / 2 + (1 / 2)\<^sup>2"
    by (rule exp_bound) simp_all
  also have "\<dots> \<le> 2" by (simp add: power2_eq_square)
  finally have e: "exp (1 / 2 :: real) \<le> 2" .
  have "(1 / 2 \<le> ln (2::real)) = (exp (1 / 2) \<le> (2::real))" by (rule ln_ge_iff) simp
  with e show "1 / 2 \<le> ln (2::real)" by blast
  show "ln (2::real) \<le> 1" using ln_le_minus_one [of "2::real"] by simp
qed

lemma calculateGamma_expired:
  "timeToExpiry \<le> 0 \<Longrightarrow> calculateGamma r s k timeToExpiry v = Fin 0"
  by (simp add: calculateGamma_def)

lemma calculateD1_value:
  assumes "0 < s" "0 < k" "0 < v" "0 < t"
  shows "calculateD1 r s k t v
         = Fin ((ln (s / k) + (r + 0.5 * v * v) * t) / (v * sqrt t))"
proof -
  have "0 < s / k" using assms(1,2) by (rule divide_pos_pos)
  then have "\<not> s / k < 0" "s / k \<noteq> 0" by linarith+
  moreover have "\<not> t < 0" "v * sqrt t \<noteq> 0" using assms by simp_all
  ultimately show ?thesis
    by (simp add: calculateD1_def Let_def)
qed

lemma normPDF_value:
  "normPDF (Fin d) =
     (if - 0.5 * d * d < - 1075 * ln 2 then Fin 0
      else Fin (exp (- 0.5 * d * d) / sqrt (2 * pi)))"
proof -
  have "\<not> 1024 * ln 2 \<le> - 0.5 * d * d"
  proof -
    have "- 0.5 * d * d \<le> 0" by (simp add: mult.assoc)
    moreover have "0 < 1024 * ln (2::real)" by simp
    ultimately show ?thesis by linarith
  qed
  moreover have "sqrt (2 * pi) \<noteq> 0" by simp
  ultimately show ?thesis
    by (simp add: normPDF_def)
qed

lemma calculateGamma_value:
  assumes "0 < s" "0 < k" "0 < v" "0 < t"
    and d: "d = (ln (s / k) + (r + 0.5 * v * v) * t) / (v * sqrt t)"
  shows "calculateGamma r s k t v =
     (if - 0.5 * d * d < - 1075 * ln 2 then Fin 0
      else Fin (exp (- 0.5 * d * d) / sqrt (2 * pi) / (s * v * sqrt t)))"
proof -
  have d1: "calculateD1 r s k t v = Fin d"
    unfolding d using assms(1-4) by (rule calculateD1_value)
  have "\<not> t \<le> 0" "\<not> t < 0" "s * v * sqrt t \<noteq> 0" using assms by simp_all
  then show ?thesis
    by (simp add: calculateGamma_def Let_def d1 normPDF_value)
qed

lemma calculateGamma_not_negative:
  assumes "0 < s" "0 < k" "0 < v" "0 < t"
  shows "\<not> js_lt (calculateGamma r s k t v) (Fin 0)"
proof -
  define d where "d = (ln (s / k) + (r + 0.5 * v * v) * t) / (v * sqrt t)"
  have "0 < s * v * sqrt t" using assms by simp
  then have "0 \<le> exp (- 0.5 * d * d) / sqrt (2 * pi) / (s * v * sqrt t)" by simp
  then show ?thesis
    using calculateGamma_value [OF assms d_def] by (simp del: exp_gt_zero)
qed

lemma calculateGamma_finite:
  assumes "0 < s" "0 < k" "0 < v" "0 < t"
  shows "js_isFinite (calculateGamma r s k t v)"
  using calculateGamma_value [OF assms refl, of r] by simp

lemma calculateGamma_positive:
  assumes "0 < s" "0 < k" "0 < v" "0 < t"
    and d: "calculateD1 r s k t v = Fin d" "\<bar>d\<bar> \<le> 30"
  shows "js_lt (Fin 0) (calculateGamma r s k t v)"
proof -
  have dv: "d = (ln (s / k) + (r + 0.5 * v * v) * t) / (v * sqrt t)"
    using d(1) calculateD1_value [OF assms(1-4), of r] by simp
  have "d * d = \<bar>d\<bar> * \<bar>d\<bar>" by simp
  also have "\<dots> \<le> 30 * 30" using d(2) by (intro mult_mono) simp_all
  finally have "d * d \<le> 900" by simp
  then have "- 450 \<le> - 0.5 * d * d" by simp
  moreover have "- 1075 * ln (2::real) \<le> - 450" using ln2_bounds(1) by simp
  ultimately have nu: "\<not> - 0.5 * d * d < - 1075 * ln 2" by linarith
  have "0 < s * v * sqrt t" using assms by simp
  then have "0 < exp (- 0.5 * d * d) / sqrt (2 * pi) / (s * v * sqrt t)" by simp
  then show ?thesis
    using calculateGamma_value [OF assms(1-4) dv] nu by simp
qed

lemma quotient_bound:
  fixes n :: real
  assumes "n \<le> - a" "0 < e" "e \<le> b" "0 \<le> a"
  shows "n / e \<le> - (a / b)"
proof -
  have "n / e \<le> (- a) / e" using assms(1,2) by (intro divide_right_mono) simp_all
  moreover have "a / b \<le> a / e" using assms(2,3,4) by (simp add: frac_le)
  ultimately show ?thesis by simp
qed

lemma exp_taylor4:
  fixes x :: real
  shows "\<exists>t. \<bar>t\<bar> \<le> \<bar>x\<bar> \<and>
     exp x = 1 + x + x ^ 2 / 2 + x ^ 3 / 6 + x ^ 4 / 24 + exp t / 120 * x ^ 5"
proof -
  obtain t where t: "\<bar>t\<bar> \<le> \<bar>x\<bar>"
    "exp x = (\<Sum>m<5. (x ^ m) / fact m) + (exp t / fact 5) * x ^ 5"
    using Maclaurin_exp_le [of x 5] by blast
  have "(\<Sum>m<5. (x ^ m) / fact m) = 1 + x + x ^ 2 / 2 + x ^ 3 / 6 + x ^ 4 / 24"
    by (simp add: eval_nat_numeral lessThan_Suc fact_numeral)
  moreover have "fact 5 = (120 :: real)" by (simp add: eval_nat_numeral)
  ultimately show ?thesis using t by auto
qed

lemma ln2_upper: "ln (2::real) \<le> 139 / 200"
proof -
  obtain t where t: "exp (139 / 200 :: real) =
      1 + 139 / 200 + (139 / 200) ^ 2 / 2 + (139 / 200) ^ 3 / 6 + (139 / 200) ^ 4 / 24
        + exp t / 120 * (139 / 200) ^ 5"
    using exp_taylor4 [of "139 / 200"] by blast
  have "0 \<le> exp t / 120 * (139 / 200 :: real) ^ 5" by simp
  moreover have "(2::real) \<le> 1 + 139 / 200 + (139 / 200) ^ 2 / 2 + (139 / 200) ^ 3 / 6 + (139 / 200) ^ 4 / 24"
    by (simp add: power_divide)
  ultimately have "(2::real) \<le> exp (139 / 200)" using t by linarith
  then have "ln (2::real) \<le> ln (exp (139 / 200))" by (subst ln_le_cancel_iff) simp_all
  then show ?thesis by simp
qed

lemma ln_three_halves_tight: "81 / 200 \<le> ln (3 / 2 :: real)"
proof -
  obtain t where t: "\<bar>t\<bar> \<le> \<bar>81 / 200 :: real\<bar>" "exp (81 / 200 :: real) =
      1 + 81 / 200 + (81 / 200) ^ 2 / 2 + (81 / 200) ^ 3 / 6 + (81 / 200) ^ 4 / 24
        + exp t / 120 * (81 / 200) ^ 5"
    using exp_taylor4 [of "81 / 200"] by blast
  have "t \<le> 1 / 2" using t(1) by simp
  then have "exp t \<le> exp (1 / 2 :: real)" by simp
  also have "\<dots> \<le> 1 + 1 / 2 + (1 / 2)\<^sup>2" by (rule exp_bound) simp_all
  finally have et: "exp t \<le> 7 / 4" by (simp add: power2_eq_square)
  have "exp t / 120 * (81 / 200 :: real) ^ 5 \<le> (7 / 4) / 120 * (81 / 200) ^ 5"
    using et by (intro mult_right_mono divide_right_mono) simp_all
  moreover have "1 + 81 / 200 + (81 / 200) ^ 2 / 2 + (81 / 200) ^ 3 / 6 + (81 / 200) ^ 4 / 24
        + (7 / 4) / 120 * (81 / 200) ^ 5 \<le> (3 / 2 :: real)"
    by (simp add: power_divide)
  ultimately have e: "exp (81 / 200 :: real) \<le> 3 / 2" using t(2) by linarith
  have "(81 / 200 \<le> ln (3 / 2 :: real)) = (exp (81 / 200) \<le> (3 / 2 :: real))"
    by (rule ln_ge_iff) simp
  with e show ?thesis by blast
qed

text \<open>
  The claim that gamma is strictly positive for all positive inputs fails where
  \<^verbatim>\<open>Math.exp\<close> underflows: for a spot of 100, a strike of 150, one day to expiry and a
  volatility of 0.2, \<open>d1\<close> is about -38.7, the exponential of \<open>- d1 * d1 / 2\<close> is
  below the smallest positive double, and gamma is exactly 0.
\<close>

theorem gamma_underflows_to_zero:
  "calculateGamma 0.05 100 150 (1 / 365) 0.2 = Fin 0
   \<and> \<not> js_lt (Fin 0) (calculateGamma 0.05 100 150 (1 / 365) 0.2)"
proof -
  define d :: real where
    "d = (ln (100 / 150) + (0.05 + 0.5 * 0.2 * 0.2) * (1 / 365)) / (0.2 * sqrt (1 / 365))"
  have l: "ln (100 / 150 :: real) \<le> - (81 / 200)"
  proof -
    have "ln (100 / 150 :: real) = - ln (3 / 2)"
      using ln_div [of "2::real" 3] ln_div [of "3::real" 2] by simp
    then show ?thesis using ln_three_halves_tight by simp
  qed
  have sq: "0 < sqrt (1 / 365 :: real)" "sqrt (1 / 365 :: real) \<le> 1000 / 19104"
  proof -
    show "0 < sqrt (1 / 365 :: real)" by simp
    show "sqrt (1 / 365 :: real) \<le> 1000 / 19104"
      by (rule real_le_lsqrt) (simp_all add: power2_eq_square)
  qed
  have num: "ln (100 / 150) + (0.05 + 0.5 * 0.2 * 0.2) * (1 / 365) \<le> - (4048 / 10000 :: real)"
    using l by simp
  have den: "0 < 0.2 * sqrt (1 / 365 :: real)" "0.2 * sqrt (1 / 365 :: real) \<le> 200 / 19104"
    using sq by simp_all
  have "d \<le> - ((4048 / 10000) / (200 / 19104))"
    unfolding d_def using num den by (intro quotient_bound) simp_all
  then have dle: "d \<le> - (3866 / 100)" by simp
  have "(3866 / 100) * (3866 / 100) \<le> (- d) * (- d)"
    using dle by (intro mult_mono) simp_all
  then have "14945 / 10 \<le> d * d" by simp
  then have "- 0.5 * d * d \<le> - (74725 / 100)" by simp
  moreover have "- (747125 / 1000) \<le> - 1075 * ln (2::real)" using ln2_upper by simp
  ultimately have u: "- 0.5 * d * d < - 1075 * ln 2" by linarith
  have "calculateGamma 0.05 100 150 (1 / 365) 0.2 = Fin 0"
    using calculateGamma_value [of 100 150 "0.2" "1 / 365" d "0.05"] u
    by (simp add: d_def)
  then show ?thesis by simp
qed


text \<open>
  C9 (amended). For a positive spot, strike, volatility and time to expiry,
  \<open>calculateGamma\<close> is never negative. It is a finite, strictly positive number at
  least where \<open>d1\<close> is at most 30 in absolute value and the four inputs lie between
  \<open>10 ^ -6\<close> and \<open>10 ^ 6\<close>, a range in which no operation of the formula leaves the
  range of the doubles; it is not always positive. The gamma that
  \<open>calculateGammaExposure\<close> computes for a contract is the same whether the contract
  is a call or a put, and for a time to expiry that is zero or negative
  \<open>calculateGamma\<close> is exactly 0.
\<close>

theorem calculateGamma_sign_type_independent_expired:
  "(0 < s \<and> 0 < k \<and> 0 < v \<and> 0 < t \<longrightarrow> \<not> js_lt (calculateGamma r s k t v) (Fin 0))
   \<and> (1 / 10 ^ 6 \<le> s \<and> s \<le> 10 ^ 6 \<and> 1 / 10 ^ 6 \<le> k \<and> k \<le> 10 ^ 6
        \<and> 1 / 10 ^ 6 \<le> v \<and> v \<le> 10 ^ 6 \<and> 1 / 10 ^ 6 \<le> t \<and> t \<le> 10 ^ 6
        \<and> calculateD1 r s k t v = Fin d \<and> \<bar>d\<bar> \<le> 30
      \<longrightarrow> js_isFinite (calculateGamma r s k t v) \<and> js_lt (Fin 0) (calculateGamma r s k t v))
   \<and> gamma (calculateGammaExposure r (c\<lparr>optionType := ''call''\<rparr>) s)
       = gamma (calculateGammaExposure r (c\<lparr>optionType := ''put''\<rparr>) s)
   \<and> (t \<le> 0 \<longrightarrow> calculateGamma r s k t v = Fin 0)"
proof (intro conjI impI)
  assume "0 < s \<and> 0 < k \<and> 0 < v \<and> 0 < t"
  then show "\<not> js_lt (calculateGamma r s k t v) (Fin 0)"
    by (simp add: calculateGamma_not_negative)
next
  assume a: "1 / 10 ^ 6 \<le> s \<and> s \<le> 10 ^ 6 \<and> 1 / 10 ^ 6 \<le> k \<and> k \<le> 10 ^ 6
        \<and> 1 / 10 ^ 6 \<le> v \<and> v \<le> 10 ^ 6 \<and> 1 / 10 ^ 6 \<le> t \<and> t \<le> 10 ^ 6
        \<and> calculateD1 r s k t v = Fin d \<and> \<bar>d\<bar> \<le> 30"
  have z: "0 < 1 / (10::real) ^ 6" by simp
  have pos: "0 < s" "0 < k" "0 < v" "0 < t" using a z by linarith+
  have p: "js_lt (Fin 0) (calculateGamma r s k t v)"
    using pos a by (intro calculateGamma_positive [of s k v t r d]) simp_all
  show "js_lt (Fin 0) (calculateGamma r s k t v)" by (rule p)
  show "js_isFinite (calculateGamma r s k t v)"
    using p calculateGamma_finite [OF pos, of r] by simp
next
  show "gamma (calculateGammaExposure r (c\<lparr>optionType := ''call''\<rparr>) s)
       = gamma (calculateGammaExposure r (c\<lparr>optionType := ''put''\<rparr>) s)"
    by (simp add: calculateGammaExposure_def Let_def)
next
  assume "t \<le> 0"
  then show "calculateGamma r s k t v = Fin 0" by (rule calculateGamma_expired)
qed

theorem calculateGamma_sign_type_independent_expired_witness:
  "\<not> js_lt (calculateGamma 0.05 100 100 (30 / 365) 0.2) (Fin 0)
   \<and> js_isFinite (calculateGamma 0.05 100 100 (30 / 365) 0.2)
   \<and> js_lt (Fin 0) (calculateGamma 0.05 100 100 (30 / 365) 0.2)
   \<and> calculateGamma 0.05 100 100 0 0.2 = Fin 0"
proof -
  define d :: real where
    "d = (ln (100 / 100) + (0.05 + 0.5 * 0.2 * 0.2) * (30 / 365)) / (0.2 * sqrt (30 / 365))"
  have d1: "calculateD1 0.05 100 100 (30 / 365) 0.2 = Fin d"
    unfolding d_def by (rule calculateD1_value) simp_all
  have "1 / 4 \<le> sqrt (30 / 365 :: real)"
    by (rule real_le_rsqrt) (simp add: power2_eq_square)
  then have den: "1 / 20 \<le> 0.2 * sqrt (30 / 365 :: real)" by simp
  have "d = (21 / 3650) / (0.2 * sqrt (30 / 365))" by (simp add: d_def)
  also have "\<dots> \<le> (21 / 3650) / (1 / 20)"
    using den by (intro divide_left_mono) simp_all
  finally have "d \<le> 30" by simp
  moreover have "0 \<le> d" by (simp add: d_def)
  ultimately have b: "\<bar>d\<bar> \<le> 30" by simp
  show ?thesis
    using calculateGamma_sign_type_independent_expired
      [where s = 100 and k = 100 and v = "0.2" and t = "30 / 365" and r = "0.05" and d = d]
      calculateGamma_sign_type_independent_expired
      [where s = 100 and k = 100 and v = "0.2" and t = 0 and r = "0.05"]
      d1 b
    by simp
qed


section \<open>Properties of the aggregation\<close>

lemma js_insert_strike:
  "js_insert (\<lambda>a b. js_sub (Fin (f a)) (Fin (f b))) x ys = insort_key f x ys"
  by (induction ys) (auto simp: js_sub_def)

lemma js_sort_strike:
  "js_sort (\<lambda>a b. js_sub (Fin (f a)) (Fin (f b))) xs = sort_key f xs"
  by (induction xs) (simp_all add: js_sort_def js_insert_strike)

lemma set_js_insert: "set (js_insert cmp x ys) = insert x (set ys)"
  by (induction ys) auto

lemma set_js_sort: "set (js_sort cmp xs) = set xs"
  by (induction xs) (simp_all add: js_sort_def set_js_insert)

lemma updateStrikeData_consistent:
  "netGamma (updateStrikeData e sd)
   = callGamma (updateStrikeData e sd) + putGamma (updateStrikeData e sd)"
  by (simp add: updateStrikeData_def Let_def)

lemma map_entry_all:
  assumes "\<forall>p \<in> set m. P (snd p)" "\<And>v. P (f v)"
  shows "\<forall>p \<in> set (AList.map_entry k f m). P (snd p)"
  using assms by (induction m) (auto split: if_splits)

lemma addContract_keeps_net:
  assumes "\<forall>p \<in> set m. netGamma (snd p) = callGamma (snd p) + putGamma (snd p)"
  shows "\<forall>p \<in> set (addContract r spot m c). netGamma (snd p) = callGamma (snd p) + putGamma (snd p)"
  unfolding addContract_def Let_def
proof (rule map_entry_all)
  show "\<forall>p \<in> set (if map_of m (x_strike (calculateGammaExposure r c spot)) = None
          then m @ [(x_strike (calculateGammaExposure r c spot),
                  \<lparr> sd_strike = x_strike (calculateGammaExposure r c spot), callGamma = 0,
                    putGamma = 0, netGamma = 0, totalOI = 0 \<rparr>)]
          else m). netGamma (snd p) = callGamma (snd p) + putGamma (snd p)"
    using assms by auto
  show "\<And>v. netGamma (updateStrikeData (calculateGammaExposure r c spot) v)
      = callGamma (updateStrikeData (calculateGammaExposure r c spot) v)
        + putGamma (updateStrikeData (calculateGammaExposure r c spot) v)"
    by (rule updateStrikeData_consistent)
qed

lemma foldl_addContract_keeps_net:
  "\<forall>p \<in> set (foldl (addContract r spot) [] cs). netGamma (snd p) = callGamma (snd p) + putGamma (snd p)"
  by (induction cs rule: rev_induct) (simp_all add: addContract_keeps_net)


lemma exposure_fields [simp]:
  "x_strike (calculateGammaExposure r c spot) = strike c"
  "x_optionType (calculateGammaExposure r c spot) = optionType c"
  "x_openInterest (calculateGammaExposure r c spot) = openInterest c"
  by (simp_all add: calculateGammaExposure_def Let_def)

lemma strikeTotals_absent:
  "k \<notin> strike ` set cs \<Longrightarrow>
   strikeTotals r spot cs k =
     \<lparr> sd_strike = k, callGamma = 0, putGamma = 0, netGamma = 0, totalOI = 0 \<rparr>"
proof -
  assume "k \<notin> strike ` set cs"
  then have "filter (\<lambda>c. strike c = k) cs = []"
    "filter (\<lambda>c. strike c = k \<and> optionType c = ''call'') cs = []"
    "filter (\<lambda>c. strike c = k \<and> optionType c \<noteq> ''call'') cs = []"
    by (auto simp: filter_empty_conv)
  then show ?thesis by (simp add: strikeTotals_def)
qed

lemma strikeTotals_snoc_same:
  "updateStrikeData (calculateGammaExposure r c spot) (strikeTotals r spot cs (strike c))
   = strikeTotals r spot (cs @ [c]) (strike c)"
  by (simp add: updateStrikeData_def strikeTotals_def Let_def)

lemma strikeTotals_snoc_other:
  "k \<noteq> strike c \<Longrightarrow> strikeTotals r spot (cs @ [c]) k = strikeTotals r spot cs k"
  by (simp add: strikeTotals_def Let_def)

lemma map_of_addContract:
  assumes "map_of m = (\<lambda>k. if k \<in> strike ` set cs then Some (strikeTotals r spot cs k) else None)"
  shows "map_of (addContract r spot m c)
         = (\<lambda>k. if k \<in> strike ` set (cs @ [c]) then Some (strikeTotals r spot (cs @ [c]) k) else None)"
proof (rule ext)
  fix k
  let ?e = "calculateGammaExposure r c spot"
  let ?m1 = "if map_of m (strike c) = None
             then m @ [(strike c, \<lparr> sd_strike = strike c, callGamma = 0, putGamma = 0,
                         netGamma = 0, totalOI = 0 \<rparr>)]
             else m"
  have m1: "map_of ?m1 (strike c) = Some (strikeTotals r spot cs (strike c))"
    using assms by (auto simp: strikeTotals_absent map_add_def split: if_splits)
  have m1': "k \<noteq> strike c \<Longrightarrow> map_of ?m1 k = map_of m k"
    by (auto simp: map_add_def split: option.splits)
  have "addContract r spot m c = AList.map_entry (strike c) (updateStrikeData ?e) ?m1"
    by (simp add: addContract_def Let_def)
  then have "map_of (addContract r spot m c) k
     = ((map_of ?m1)(strike c := map_option (updateStrikeData ?e) (map_of ?m1 (strike c)))) k"
    by (simp add: map_of_map_entry split: option.splits)
  then show "map_of (addContract r spot m c) k
     = (if k \<in> strike ` set (cs @ [c]) then Some (strikeTotals r spot (cs @ [c]) k) else None)"
    using m1 m1' assms
    by (cases "k = strike c") (auto simp: strikeTotals_snoc_same strikeTotals_snoc_other)
qed

lemma map_of_foldl_addContract:
  "map_of (foldl (addContract r spot) [] cs)
   = (\<lambda>k. if k \<in> strike ` set cs then Some (strikeTotals r spot cs k) else None)"
proof (induction cs rule: rev_induct)
  case Nil
  show ?case by simp
next
  case (snoc c cs)
  show ?case using map_of_addContract [OF snoc] by simp
qed

lemma distinct_addContract:
  "distinct (map fst m) \<Longrightarrow> distinct (map fst (addContract r spot m c))"
  unfolding addContract_def Let_def
  by (rule distinct_map_entry) (auto simp: map_of_eq_None_iff)

lemma distinct_foldl_addContract:
  "distinct (map fst (foldl (addContract r spot) [] cs))"
  by (induction cs rule: rev_induct) (simp_all add: distinct_addContract)


lemma set_foldl_addContract:
  "set (foldl (addContract r spot) [] cs) = (\<lambda>k. (k, strikeTotals r spot cs k)) ` strike ` set cs"
proof -
  let ?m = "foldl (addContract r spot) [] cs"
  have "\<And>k v. (k, v) \<in> set ?m \<longleftrightarrow> k \<in> strike ` set cs \<and> v = strikeTotals r spot cs k"
    using map_of_foldl_addContract [of r spot cs] distinct_foldl_addContract [of r spot cs]
    by (metis map_of_eq_Some_iff option.distinct(1) option.inject)
  then show ?thesis by (auto simp: image_iff)
qed

lemma sd_strike_strikeTotals [simp]: "sd_strike (strikeTotals r spot cs k) = k"
  by (simp add: strikeTotals_def Let_def)

lemma aggregateByStrike_closed_form:
  "aggregateByStrike r cs spot
   = map (strikeTotals r spot cs) (sorted_list_of_set (strike ` set cs))"
proof -
  let ?m = "foldl (addContract r spot) [] cs"
  let ?xs = "map snd ?m"
  let ?K = "strike ` set cs"
  let ?ys = "map (strikeTotals r spot cs) (sorted_list_of_set ?K)"
  have fin: "finite ?K" by simp
  have key: "map sd_strike ?xs = map fst ?m"
    by (auto simp: set_foldl_addContract)
  have dx: "distinct (map sd_strike ?xs)"
    unfolding key by (rule distinct_foldl_addContract)
  have dy: "distinct (map sd_strike ?ys)"
    by (simp add: comp_def)
  have "set ?xs = strikeTotals r spot cs ` ?K"
    by (simp add: set_foldl_addContract image_image)
  also have "\<dots> = set ?ys" using fin by simp
  finally have sxy: "set ?xs = set ?ys" .
  have dx': "distinct ?xs \<and> inj_on sd_strike (set ?xs)"
    using dx distinct_map by blast
  have dy': "distinct ?ys"
    using dy distinct_map by blast
  have "mset ?xs = mset ?ys"
    using sxy dx' dy' set_eq_iff_mset_eq_distinct by blast
  moreover have "inj_on sd_strike (set ?xs)" using dx' by simp
  moreover have "sorted (map sd_strike ?ys)" by (simp add: comp_def)
  ultimately have "sort_key sd_strike ?xs = ?ys" by (rule sort_key_inj_key_eq)
  then show ?thesis by (simp add: aggregateByStrike_def js_sort_strike)
qed

text \<open>
  C2. After every step of the fold over the contracts (after each prefix of the list),
  every aggregate held in the map has its net gamma equal to the sum of its call and put
  gamma, and so has every aggregate \<open>aggregateByStrike\<close> returns. The equation is
  the assignment the step itself makes; no later pass restores it.
\<close>

theorem netGamma_is_call_plus_put:
  "(\<forall>n \<le> length cs. \<forall>p \<in> set (foldl (addContract r spot) [] (take n cs)).
       netGamma (snd p) = callGamma (snd p) + putGamma (snd p))
   \<and> (\<forall>sd \<in> set (aggregateByStrike r cs spot).
       netGamma sd = callGamma sd + putGamma sd)"
proof (intro conjI allI impI)
  fix n
  show "\<forall>p \<in> set (foldl (addContract r spot) [] (take n cs)).
       netGamma (snd p) = callGamma (snd p) + putGamma (snd p)"
    by (rule foldl_addContract_keeps_net)
next
  have "set (aggregateByStrike r cs spot) = snd ` set (foldl (addContract r spot) [] cs)"
    by (simp add: aggregateByStrike_def set_js_sort)
  then show "\<forall>sd \<in> set (aggregateByStrike r cs spot).
       netGamma sd = callGamma sd + putGamma sd"
    using foldl_addContract_keeps_net [of r spot cs] by auto
qed

theorem netGamma_is_call_plus_put_witness:
  "length (aggregateByStrike 0.05 [sampleCall, samplePut, sampleCall95] 100) = 2
   \<and> netGamma (aggregateByStrike 0.05 [sampleCall, samplePut, sampleCall95] 100 ! 0)
       = callGamma (aggregateByStrike 0.05 [sampleCall, samplePut, sampleCall95] 100 ! 0)
         + putGamma (aggregateByStrike 0.05 [sampleCall, samplePut, sampleCall95] 100 ! 0)
   \<and> netGamma (aggregateByStrike 0.05 [sampleCall, samplePut, sampleCall95] 100 ! 1)
       = callGamma (aggregateByStrike 0.05 [sampleCall, samplePut, sampleCall95] 100 ! 1)
         + putGamma (aggregateByStrike 0.05 [sampleCall, samplePut, sampleCall95] 100 ! 1)"
  using netGamma_is_call_plus_put [of "[sampleCall, samplePut, sampleCall95]" "0.05" 100]
  by (simp add: aggregateByStrike_def addContract_def updateStrikeData_def Let_def
      js_sort_def js_sub_def sampleCall_def samplePut_def sampleCall95_def)

text \<open>
  The claim that an invalid contract is left out fails: a call with a negative open
  interest is aggregated like any other contract, and its strike gets an aggregate.
\<close>

theorem invalid_contract_is_aggregated:
  "\<not> spec_validContract negativeOICall
   \<and> aggregateByStrike 0.05 [sampleCall, negativeOICall] 100
       \<noteq> aggregateByStrike 0.05 (filter spec_validContract [sampleCall, negativeOICall]) 100
   \<and> map sd_strike (aggregateByStrike 0.05 [sampleCall, negativeOICall] 100) = [100, 105]
   \<and> map totalOI (aggregateByStrike 0.05 [sampleCall, negativeOICall] 100) = [1000, - 5]"
proof -
  have v: "\<not> spec_validContract negativeOICall" "spec_validContract sampleCall"
    by (simp_all add: spec_validContract_def negativeOICall_def sampleCall_def)
  have two: "map sd_strike (aggregateByStrike 0.05 [sampleCall, negativeOICall] 100) = [100, 105]"
    by (simp add: aggregateByStrike_def addContract_def updateStrikeData_def Let_def
        js_sort_def js_sub_def sampleCall_def negativeOICall_def)
  have oi: "map totalOI (aggregateByStrike 0.05 [sampleCall, negativeOICall] 100) = [1000, - 5]"
    by (simp add: aggregateByStrike_def addContract_def updateStrikeData_def Let_def
        js_sort_def js_sub_def sampleCall_def negativeOICall_def)
  have one: "map sd_strike (aggregateByStrike 0.05 [sampleCall] 100) = [100]"
    by (simp add: aggregateByStrike_def addContract_def updateStrikeData_def Let_def
        js_sort_def js_sub_def sampleCall_def)
  have "aggregateByStrike 0.05 [sampleCall, negativeOICall] 100
      \<noteq> aggregateByStrike 0.05 [sampleCall] 100"
    using two one by auto
  then show ?thesis using v two oi by simp
qed

text \<open>
  C5 (amended). \<open>aggregateByStrike\<close> validates nothing: every contract of the input,
  valid or not, is folded into the aggregate of its strike. The result has one aggregate
  for each strike of the input, in ascending order of strike, holding the sums over all
  the contracts of that strike; the batch is never aborted.
\<close>

theorem aggregateByStrike_folds_every_contract:
  "aggregateByStrike r cs spot
     = map (strikeTotals r spot cs) (sorted_list_of_set (strike ` set cs))
   \<and> (\<forall>c \<in> set cs. strikeTotals r spot cs (strike c) \<in> set (aggregateByStrike r cs spot))"
  by (simp add: aggregateByStrike_closed_form)

theorem aggregateByStrike_folds_every_contract_witness:
  "strikeTotals 0.05 100 [sampleCall, negativeOICall] 105
     \<in> set (aggregateByStrike 0.05 [sampleCall, negativeOICall] 100)
   \<and> totalOI (strikeTotals 0.05 100 [sampleCall, negativeOICall] 105) = - 5"
proof -
  have "negativeOICall \<in> set [sampleCall, negativeOICall]" by simp
  then have "strikeTotals 0.05 100 [sampleCall, negativeOICall] (strike negativeOICall)
      \<in> set (aggregateByStrike 0.05 [sampleCall, negativeOICall] 100)"
    using aggregateByStrike_folds_every_contract [of "0.05" "[sampleCall, negativeOICall]" 100]
    by blast
  moreover have "strike negativeOICall = 105" by (simp add: negativeOICall_def)
  moreover have "totalOI (strikeTotals 0.05 100 [sampleCall, negativeOICall] 105) = - 5"
    by (simp add: strikeTotals_def Let_def sampleCall_def negativeOICall_def)
  ultimately show ?thesis by simp
qed

section \<open>Properties of the gamma flip level\<close>

lemma findGammaFlip_None:
  "findGammaFlip ges = None \<longleftrightarrow>
     (\<forall>i. Suc i < length ges \<longrightarrow> \<not> signChange (ges ! i) (ges ! Suc i))"
proof (induction ges rule: findGammaFlip.induct)
  case (1 current nxt rest)
  show ?case
  proof (cases "signChange current nxt")
    case True
    then have "findGammaFlip (current # nxt # rest) \<noteq> None"
      by simp
    moreover have "Suc 0 < length (current # nxt # rest) \<and> signChange ((current # nxt # rest) ! 0) ((current # nxt # rest) ! Suc 0)"
      using True by simp
    ultimately show ?thesis by blast
  next
    case False
    then have eq: "findGammaFlip (current # nxt # rest) = findGammaFlip (nxt # rest)"
      by simp
    have ih: "findGammaFlip (nxt # rest) = None \<longleftrightarrow>
       (\<forall>i. Suc i < length (nxt # rest) \<longrightarrow> \<not> signChange ((nxt # rest) ! i) ((nxt # rest) ! Suc i))"
      using 1 False by simp
    have "(\<forall>i. Suc i < length (current # nxt # rest) \<longrightarrow> \<not> signChange ((current # nxt # rest) ! i) ((current # nxt # rest) ! Suc i))
       \<longleftrightarrow> (\<forall>i. Suc i < length (nxt # rest) \<longrightarrow> \<not> signChange ((nxt # rest) ! i) ((nxt # rest) ! Suc i))"
      (is "?L \<longleftrightarrow> ?R")
    proof
      assume l: ?L
      show ?R
      proof (intro allI impI)
        fix i assume "Suc i < length (nxt # rest)"
        then have "Suc (Suc i) < length (current # nxt # rest)" by simp
        from l [rule_format, OF this] show "\<not> signChange ((nxt # rest) ! i) ((nxt # rest) ! Suc i)" by simp
      qed
    next
      assume r: ?R
      show ?L
      proof (intro allI impI)
        fix i assume i: "Suc i < length (current # nxt # rest)"
        show "\<not> signChange ((current # nxt # rest) ! i) ((current # nxt # rest) ! Suc i)"
        proof (cases i)
          case 0
          then show ?thesis using False by simp
        next
          case (Suc j)
          then have "Suc j < length (nxt # rest)" using i by simp
          from r [rule_format, OF this] show ?thesis using Suc by simp
        qed
      qed
    qed
    then show ?thesis using eq ih by simp
  qed
qed simp_all

lemma findGammaFlip_first:
  "Suc i < length ges \<Longrightarrow> signChange (ges ! i) (ges ! Suc i) \<Longrightarrow>
   (\<forall>j < i. \<not> signChange (ges ! j) (ges ! Suc j)) \<Longrightarrow>
   findGammaFlip ges = Some ((sd_strike (ges ! i) + sd_strike (ges ! Suc i)) / 2)"
proof (induction ges arbitrary: i rule: findGammaFlip.induct)
  case (1 current nxt rest)
  show ?case
  proof (cases i)
    case 0
    then show ?thesis using "1.prems" by simp
  next
    case (Suc j)
    then have nc: "\<not> signChange current nxt" using "1.prems"(3) by auto
    have a: "Suc j < length (nxt # rest)" using "1.prems"(1) Suc by simp
    have b: "signChange ((nxt # rest) ! j) ((nxt # rest) ! Suc j)" using "1.prems"(2) Suc by simp
    have c: "\<forall>k < j. \<not> signChange ((nxt # rest) ! k) ((nxt # rest) ! Suc k)"
    proof (intro allI impI)
      fix k assume "k < j"
      then have "Suc k < i" using Suc by simp
      with "1.prems"(3) have "\<not> signChange ((current # nxt # rest) ! Suc k) ((current # nxt # rest) ! Suc (Suc k))" by blast
      then show "\<not> signChange ((nxt # rest) ! k) ((nxt # rest) ! Suc k)" by simp
    qed
    have "findGammaFlip (nxt # rest) = Some ((sd_strike ((nxt # rest) ! j) + sd_strike ((nxt # rest) ! Suc j)) / 2)"
      using "1.IH" [OF _ a b c] nc by simp
    then show ?thesis using nc Suc by simp
  qed
qed simp_all



lemma gammaFlipLevel_findGammaFlip:
  "gammaFlipLevel (calculateGammaEnvironment ges spot) = findGammaFlip ges"
  by (simp add: calculateGammaEnvironment_def Let_def)

text \<open>
  C3. The gamma flip level of \<open>calculateGammaEnvironment\<close> is found by a scan of the
  aggregates in list order, which for the list \<open>aggregateByStrike\<close> returns is the
  ascending order of strike. It is the midpoint of the first adjacent pair whose net
  gammas have opposite signs (one above zero, the other below), and \<open>None\<close> when no
  adjacent pair has. For net gammas of signs +, +, -, + at the strikes 100, 101, 102,
  103 it is 101.5, the second change between 102 and 103 notwithstanding.
\<close>

theorem gammaFlipLevel_first_sign_change:
  "sorted (map sd_strike (aggregateByStrike r cs spot'))
   \<and> (\<forall>i. Suc i < length ges \<and> signChange (ges ! i) (ges ! Suc i)
          \<and> (\<forall>j < i. \<not> signChange (ges ! j) (ges ! Suc j))
        \<longrightarrow> gammaFlipLevel (calculateGammaEnvironment ges spot)
              = Some ((sd_strike (ges ! i) + sd_strike (ges ! Suc i)) / 2))
   \<and> ((\<forall>i. Suc i < length ges \<longrightarrow> \<not> signChange (ges ! i) (ges ! Suc i))
        \<longleftrightarrow> gammaFlipLevel (calculateGammaEnvironment ges spot) = None)
   \<and> (sd_strike ga = 100 \<and> sd_strike gb = 101 \<and> sd_strike gc = 102 \<and> sd_strike gd = 103
        \<and> js_lt (Fin 0) (netGamma ga) \<and> js_lt (Fin 0) (netGamma gb)
        \<and> js_lt (netGamma gc) (Fin 0) \<and> js_lt (Fin 0) (netGamma gd)
        \<longrightarrow> signChange gc gd
            \<and> gammaFlipLevel (calculateGammaEnvironment [ga, gb, gc, gd] spot) = Some 101.5)"
proof (intro conjI allI impI)
  show "sorted (map sd_strike (aggregateByStrike r cs spot'))"
    by (simp add: aggregateByStrike_closed_form comp_def)
next
  fix i
  assume "Suc i < length ges \<and> signChange (ges ! i) (ges ! Suc i)
          \<and> (\<forall>j < i. \<not> signChange (ges ! j) (ges ! Suc j))"
  then show "gammaFlipLevel (calculateGammaEnvironment ges spot)
              = Some ((sd_strike (ges ! i) + sd_strike (ges ! Suc i)) / 2)"
    by (simp add: gammaFlipLevel_findGammaFlip findGammaFlip_first)
next
  show "(\<forall>i. Suc i < length ges \<longrightarrow> \<not> signChange (ges ! i) (ges ! Suc i))
        \<longleftrightarrow> gammaFlipLevel (calculateGammaEnvironment ges spot) = None"
    by (simp add: gammaFlipLevel_findGammaFlip findGammaFlip_None)
next
  assume a: "sd_strike ga = 100 \<and> sd_strike gb = 101 \<and> sd_strike gc = 102 \<and> sd_strike gd = 103
        \<and> js_lt (Fin 0) (netGamma ga) \<and> js_lt (Fin 0) (netGamma gb)
        \<and> js_lt (netGamma gc) (Fin 0) \<and> js_lt (Fin 0) (netGamma gd)"
  show "signChange gc gd" using a by (simp add: signChange_def)
  have "\<not> js_lt (netGamma gb) (Fin 0)" using a by (cases "netGamma gb") auto
  then have "\<not> signChange ga gb" using a by (cases "netGamma ga") (auto simp: signChange_def)
  moreover have "signChange gb gc" using a by (simp add: signChange_def)
  ultimately show "gammaFlipLevel (calculateGammaEnvironment [ga, gb, gc, gd] spot) = Some 101.5"
    using a by (simp add: gammaFlipLevel_findGammaFlip)
qed

theorem gammaFlipLevel_first_sign_change_witness:
  "gammaFlipLevel (calculateGammaEnvironment scenarioE 100) = Some 101.5
   \<and> signChange (scenarioE ! 2) (scenarioE ! 3)
   \<and> gammaFlipLevel (calculateGammaEnvironment [zeroAggregate, callOnlyAggregate] 100) = None"
proof -
  have "gammaFlipLevel (calculateGammaEnvironment [scenarioE ! 0, scenarioE ! 1, scenarioE ! 2, scenarioE ! 3] 100) = Some 101.5
      \<and> signChange (scenarioE ! 2) (scenarioE ! 3)"
    using gammaFlipLevel_first_sign_change
      [where ga = "scenarioE ! 0" and gb = "scenarioE ! 1" and gc = "scenarioE ! 2"
         and gd = "scenarioE ! 3" and spot = 100]
    by (simp add: scenarioE_def)
  moreover have "[scenarioE ! 0, scenarioE ! 1, scenarioE ! 2, scenarioE ! 3] = scenarioE"
    by (simp add: scenarioE_def)
  moreover have "gammaFlipLevel (calculateGammaEnvironment [zeroAggregate, callOnlyAggregate] 100) = None"
    using gammaFlipLevel_first_sign_change
      [where ges = "[zeroAggregate, callOnlyAggregate]" and spot = 100]
    by (simp add: zeroAggregate_def callOnlyAggregate_def signChange_def)
  ultimately show ?thesis by simp
qed

section \<open>Properties of the metrics\<close>

lemma foldl_plus_sum_list:
  fixes a :: jsnum
  shows "foldl (\<lambda>s x. s + f x) a xs = a + sum_list (map f xs)"
  by (induction xs arbitrary: a) (simp_all add: add.assoc)

lemma magnitude_abs: "magnitude (js_abs x)"
  by (cases x) simp_all

lemma magnitude_plus: "magnitude x \<Longrightarrow> magnitude y \<Longrightarrow> magnitude (x + y)"
  by (cases x; cases y) simp_all

lemma magnitude_sum_list: "(\<forall>x \<in> set xs. magnitude x) \<Longrightarrow> magnitude (sum_list xs)"
  by (induction xs) (simp_all add: magnitude_plus zero_jsnum_def)

lemma plus_eq_zero:
  "magnitude x \<Longrightarrow> magnitude y \<Longrightarrow> x + y = Fin 0 \<Longrightarrow> x = Fin 0 \<and> y = Fin 0"
  by (cases x; cases y) auto

lemma sum_list_zero:
  "(\<forall>x \<in> set xs. magnitude x) \<Longrightarrow> sum_list xs = Fin 0 \<Longrightarrow> \<forall>x \<in> set xs. x = Fin 0"
proof (induction xs)
  case Nil
  show ?case by simp
next
  case (Cons x xs)
  have "magnitude x" "magnitude (sum_list xs)"
    using Cons.prems(1) by (simp_all add: magnitude_sum_list)
  moreover have "x + sum_list xs = Fin 0" using Cons.prems(2) by simp
  ultimately have "x = Fin 0 \<and> sum_list xs = Fin 0" by (rule plus_eq_zero)
  then show ?case using Cons by simp
qed

lemma sum_list_all_zero:
  "(\<forall>x \<in> set xs. x = Fin 0) \<Longrightarrow> sum_list xs = Fin 0"
  by (induction xs) (simp_all add: zero_jsnum_def)

lemma weighted_undefined:
  assumes "totalAbsGamma ges = Fin 0"
  shows "gammaWeightedAvgStrike (calculateAllMetrics ges) = NaN"
proof -
  have "sum_list (map (\<lambda>ge. js_abs (netGamma ge)) ges) = Fin 0"
    using assms by (simp add: totalAbsGamma_def foldl_plus_sum_list)
  moreover have "\<forall>x \<in> set (map (\<lambda>ge. js_abs (netGamma ge)) ges). magnitude x"
    by (simp add: magnitude_abs)
  ultimately have "\<forall>x \<in> set (map (\<lambda>ge. js_abs (netGamma ge)) ges). x = Fin 0"
    by (rule sum_list_zero [rotated])
  then have z: "\<forall>ge \<in> set ges. js_abs (netGamma ge) = Fin 0" by simp
  have "sum_list (map (\<lambda>ge. js_mul (Fin (sd_strike ge)) (js_abs (netGamma ge))) ges) = Fin 0"
    by (rule sum_list_all_zero) (use z in auto)
  then have "foldl (\<lambda>sum ge. sum + js_mul (Fin (sd_strike ge)) (js_abs (netGamma ge))) 0 ges = Fin 0"
    by (simp add: foldl_plus_sum_list)
  then show ?thesis
    using assms by (simp add: calculateAllMetrics_def Let_def)
qed

lemma ratio_zero_put:
  assumes "totalPutGamma (calculateAllMetrics ges) = Fin 0"
  shows "callPutGammaRatio (calculateAllMetrics ges)
     = (if totalCallGamma (calculateAllMetrics ges) = Fin 0
           \<or> totalCallGamma (calculateAllMetrics ges) = NaN then NaN else PInf)"
proof -
  have "js_abs (js_div x (Fin 0)) = (if x = Fin 0 \<or> x = NaN then NaN else PInf)" for x
    by (cases x) auto
  then show ?thesis
    using assms by (simp add: calculateAllMetrics_def Let_def)
qed


text \<open>
  With no aggregate at all the classification returns a record; nothing is raised, and
  the aggregation of no contract is the empty list.
\<close>

theorem empty_input_returns_record:
  "calculateGammaEnvironment [] 100 =
     \<lparr> environment = ''neutral'', environmentStrength = NaN, strengthLevel = ''Very Weak'',
       gammaFlipLevel = None, positiveStrikes = 0, negativeStrikes = 0, neutralStrikes = 0,
       positiveStrikePercentage = NaN, negativeStrikePercentage = NaN \<rparr>
   \<and> aggregateByStrike 0.05 [] 100 = []"
  by (simp add: calculateGammaEnvironment_def calculateAllMetrics_def Let_def zero_jsnum_def
      aggregateByStrike_def js_sort_def)

text \<open>
  C4 (amended). With zero contracts no error is raised. \<open>aggregateByStrike\<close> returns
  the empty list, and \<open>calculateGammaEnvironment\<close> on the empty list returns a record:
  the environment is neutral, the strength is \<^verbatim>\<open>NaN\<close> (zero over zero) and its level the
  lowest one, there is no flip level, the three counts are 0 and the two percentages are
  \<^verbatim>\<open>NaN\<close>.
\<close>

theorem empty_input_statistics:
  "aggregateByStrike r [] spot = []
   \<and> calculateGammaEnvironment [] spot =
     \<lparr> environment = ''neutral'', environmentStrength = NaN, strengthLevel = ''Very Weak'',
       gammaFlipLevel = None, positiveStrikes = 0, negativeStrikes = 0, neutralStrikes = 0,
       positiveStrikePercentage = NaN, negativeStrikePercentage = NaN \<rparr>"
  by (simp add: calculateGammaEnvironment_def calculateAllMetrics_def Let_def zero_jsnum_def
      aggregateByStrike_def js_sort_def)

text \<open>
  The claim that the call/put ratio is plus infinity whenever the total put gamma is zero
  fails when the total call gamma is zero as well: zero over zero is \<^verbatim>\<open>NaN\<close>.
\<close>

theorem ratio_is_NaN_when_both_totals_zero:
  "totalPutGamma (calculateAllMetrics [zeroAggregate]) = Fin 0
   \<and> callPutGammaRatio (calculateAllMetrics [zeroAggregate]) = NaN"
  by (simp add: calculateAllMetrics_def Let_def zero_jsnum_def zeroAggregate_def)

text \<open>
  C6 (amended). \<open>calculateAllMetrics\<close> raises nothing. When the total put gamma is
  exactly zero, the call/put ratio is plus infinity if the total call gamma is a non-zero
  number or an infinity, and \<^verbatim>\<open>NaN\<close> if the total call gamma is zero or \<^verbatim>\<open>NaN\<close>. When
  the sum of the absolute net gammas is zero, the gamma-weighted average strike is
  \<^verbatim>\<open>NaN\<close>, not zero.
\<close>

theorem degenerate_metrics:
  "(totalPutGamma (calculateAllMetrics ges) = Fin 0 \<longrightarrow>
      callPutGammaRatio (calculateAllMetrics ges)
      = (if totalCallGamma (calculateAllMetrics ges) = Fin 0
            \<or> totalCallGamma (calculateAllMetrics ges) = NaN then NaN else PInf))
   \<and> (totalAbsGamma ges = Fin 0 \<longrightarrow> gammaWeightedAvgStrike (calculateAllMetrics ges) = NaN)"
  by (simp add: ratio_zero_put weighted_undefined)

theorem degenerate_metrics_witness:
  "callPutGammaRatio (calculateAllMetrics [callOnlyAggregate]) = PInf
   \<and> gammaWeightedAvgStrike (calculateAllMetrics [zeroAggregate]) = NaN"
proof -
  have "totalPutGamma (calculateAllMetrics [callOnlyAggregate]) = Fin 0"
    "totalCallGamma (calculateAllMetrics [callOnlyAggregate]) = Fin (- 5)"
    by (simp_all add: calculateAllMetrics_def Let_def zero_jsnum_def callOnlyAggregate_def)
  then have "callPutGammaRatio (calculateAllMetrics [callOnlyAggregate]) = PInf"
    using degenerate_metrics [of "[callOnlyAggregate]"] by simp
  moreover have "totalAbsGamma [zeroAggregate] = Fin 0"
    by (simp add: totalAbsGamma_def zero_jsnum_def zeroAggregate_def)
  then have "gammaWeightedAvgStrike (calculateAllMetrics [zeroAggregate]) = NaN"
    using degenerate_metrics [of "[zeroAggregate]"] by simp
  ultimately show ?thesis by simp
qed

section \<open>Properties of the wall analysis\<close>

lemma length_findCallWalls:
  "length (findCallWalls t ges spot mw) =
     (let cands = js_sort (\<lambda>a b. js_sub (exposure b) (exposure a))
              (map (\<lambda>ge. \<lparr> c_strike = sd_strike ge, exposure = js_abs (callGamma ge),
                           rawExposure = callGamma ge,
                           distance = \<bar>sd_strike ge - spot\<bar> \<rparr>)
                 (filter (\<lambda>ge. js_lt (callGamma ge) (Fin 0)) ges))
      in length (js_slice0
           (filter (\<lambda>c. js_le (js_mul (foldl (\<lambda>sum c. sum + exposure c) 0 cands) (Fin t))
                      (exposure c)) cands) mw))"
  by (simp add: findCallWalls_def Let_def js_slice0_def)

lemma length_findPutWalls:
  "length (findPutWalls t ges spot mw) =
     (let cands = js_sort (\<lambda>a b. js_sub (exposure b) (exposure a))
              (map (\<lambda>ge. \<lparr> c_strike = sd_strike ge, exposure = putGamma ge,
                           rawExposure = putGamma ge,
                           distance = \<bar>sd_strike ge - spot\<bar> \<rparr>)
                 (filter (\<lambda>ge. js_lt (Fin 0) (putGamma ge)) ges))
      in length (js_slice0
           (filter (\<lambda>c. js_le (js_mul (foldl (\<lambda>sum c. sum + exposure c) 0 cands) (Fin t))
                      (exposure c)) cands) mw))"
  by (simp add: findPutWalls_def Let_def js_slice0_def)

lemma sum_list_finite_magnitudes:
  "(\<forall>x \<in> set xs. \<exists>a. x = Fin a \<and> 0 \<le> a) \<Longrightarrow> \<exists>T. sum_list xs = Fin T \<and> 0 \<le> T"
proof (induction xs)
  case Nil
  show ?case by (simp add: zero_jsnum_def)
next
  case (Cons x xs)
  then obtain a T where "x = Fin a" "0 \<le> a" "sum_list xs = Fin T" "0 \<le> T" by auto
  then show ?case by simp
qed

lemma js_le_threshold_mono:
  assumes "0 \<le> T" "t1 \<le> t2" "js_le (js_mul (Fin T) (Fin t2)) e"
  shows "js_le (js_mul (Fin T) (Fin t1)) e"
proof -
  have "T * t1 \<le> T * t2" using assms(1,2) by (rule mult_left_mono [rotated])
  then show ?thesis using assms(3) by (cases e) auto
qed

lemma length_filter_mono:
  "(\<And>x. x \<in> set xs \<Longrightarrow> P x \<Longrightarrow> Q x) \<Longrightarrow> length (filter P xs) \<le> length (filter Q xs)"
  by (induction xs) auto

lemma length_js_slice0_mono:
  "length xs \<le> length ys \<Longrightarrow> length (js_slice0 xs e) \<le> length (js_slice0 ys e)"
  by (auto simp: js_slice0_def)

lemma walls_mono_generic:
  fixes cands :: "candidate list"
  assumes fin: "\<forall>c \<in> set cands. \<exists>a. exposure c = Fin a \<and> 0 \<le> a" and le: "t1 \<le> t2"
  shows "length (js_slice0
           (filter (\<lambda>c. js_le (js_mul (foldl (\<lambda>sum c. sum + exposure c) 0 cands) (Fin t2))
                      (exposure c)) cands) mw)
       \<le> length (js_slice0
           (filter (\<lambda>c. js_le (js_mul (foldl (\<lambda>sum c. sum + exposure c) 0 cands) (Fin t1))
                      (exposure c)) cands) mw)"
proof -
  have "\<forall>x \<in> set (map exposure cands). \<exists>a. x = Fin a \<and> 0 \<le> a" using fin by simp
  then obtain T where T: "sum_list (map exposure cands) = Fin T" "0 \<le> T"
    using sum_list_finite_magnitudes by blast
  have total: "foldl (\<lambda>sum c. sum + exposure c) 0 cands = Fin T"
    using T(1) by (simp add: foldl_plus_sum_list)
  show ?thesis
    unfolding total
    by (intro length_js_slice0_mono length_filter_mono) (rule js_le_threshold_mono [OF T(2) le])
qed

lemma call_candidates_finite:
  assumes "\<forall>ge \<in> set ges. callGamma ge \<noteq> NInf"
  shows "\<forall>c \<in> set (js_sort cmp
              (map (\<lambda>ge. \<lparr> c_strike = sd_strike ge, exposure = js_abs (callGamma ge),
                           rawExposure = callGamma ge,
                           distance = \<bar>sd_strike ge - spot\<bar> \<rparr>)
                 (filter (\<lambda>ge. js_lt (callGamma ge) (Fin 0)) ges))).
           \<exists>a. exposure c = Fin a \<and> 0 \<le> a"
proof -
  have "js_lt x (Fin 0) \<Longrightarrow> x \<noteq> NInf \<Longrightarrow> \<exists>a. js_abs x = Fin a \<and> 0 \<le> a" for x
    by (cases x) auto
  then show ?thesis using assms by (auto simp: set_js_sort)
qed

lemma put_candidates_finite:
  assumes "\<forall>ge \<in> set ges. putGamma ge \<noteq> PInf"
  shows "\<forall>c \<in> set (js_sort cmp
              (map (\<lambda>ge. \<lparr> c_strike = sd_strike ge, exposure = putGamma ge,
                           rawExposure = putGamma ge,
                           distance = \<bar>sd_strike ge - spot\<bar> \<rparr>)
                 (filter (\<lambda>ge. js_lt (Fin 0) (putGamma ge)) ges))).
           \<exists>a. exposure c = Fin a \<and> 0 \<le> a"
proof -
  have "js_lt (Fin 0) x \<Longrightarrow> x \<noteq> PInf \<Longrightarrow> \<exists>a. x = Fin a \<and> 0 \<le> a" for x
    by (cases x) auto
  then show ?thesis using assms by (auto simp: set_js_sort)
qed

lemma findCallWalls_mono:
  assumes "\<forall>ge \<in> set ges. callGamma ge \<noteq> NInf" "t1 \<le> t2"
  shows "length (findCallWalls t2 ges spot mw) \<le> length (findCallWalls t1 ges spot mw)"
  unfolding length_findCallWalls Let_def
  by (rule walls_mono_generic [OF call_candidates_finite [OF assms(1)] assms(2)])

lemma findPutWalls_mono:
  assumes "\<forall>ge \<in> set ges. putGamma ge \<noteq> PInf" "t1 \<le> t2"
  shows "length (findPutWalls t2 ges spot mw) \<le> length (findPutWalls t1 ges spot mw)"
  unfolding length_findPutWalls Let_def
  by (rule walls_mono_generic [OF put_candidates_finite [OF assms(1)] assms(2)])


text \<open>
  The claim that a higher threshold never gives more walls fails on a list that holds an
  infinite call exposure: the total is then infinite, the threshold for 0 is infinity
  times zero, \<^verbatim>\<open>NaN\<close>, which no candidate passes, and the threshold for 0.05 is
  infinity, which the infinite candidate passes.
\<close>

theorem wall_count_rises_on_infinite_exposure:
  "length (findCallWalls 0 [infiniteCallAggregate] 100 5) = 0
   \<and> length (findCallWalls 0.05 [infiniteCallAggregate] 100 5) = 1"
  by (simp add: findCallWalls_def infiniteCallAggregate_def Let_def js_sort_def js_sub_def
      js_slice0_def zero_jsnum_def)

text \<open>
  C8 (amended). On a list of aggregates in which no call exposure is minus infinity,
  raising the significance threshold never increases the number of call walls: for
  thresholds \<open>t1 \<le> t2\<close>, \<open>findCallWalls\<close> with \<open>t2\<close> returns at most as many walls
  as with \<open>t1\<close>, whatever the spot and \<open>maxWalls\<close>. The same holds for
  \<open>findPutWalls\<close> on a list in which no put exposure is plus infinity.
\<close>

theorem wall_count_antitone_in_threshold:
  "t1 \<le> t2 \<Longrightarrow>
   ((\<forall>ge \<in> set ges. callGamma ge \<noteq> NInf) \<longrightarrow>
      length (findCallWalls t2 ges spot maxWalls) \<le> length (findCallWalls t1 ges spot maxWalls))
   \<and> ((\<forall>ge \<in> set ges. putGamma ge \<noteq> PInf) \<longrightarrow>
      length (findPutWalls t2 ges spot maxWalls) \<le> length (findPutWalls t1 ges spot maxWalls))"
proof (intro conjI impI)
  assume le: "t1 \<le> t2"
  {
    assume "\<forall>ge \<in> set ges. callGamma ge \<noteq> NInf"
    then show "length (findCallWalls t2 ges spot maxWalls) \<le> length (findCallWalls t1 ges spot maxWalls)"
      using le by (rule findCallWalls_mono)
  }
  {
    assume "\<forall>ge \<in> set ges. putGamma ge \<noteq> PInf"
    then show "length (findPutWalls t2 ges spot maxWalls) \<le> length (findPutWalls t1 ges spot maxWalls)"
      using le by (rule findPutWalls_mono)
  }
qed

theorem wall_count_antitone_in_threshold_witness:
  "length (findCallWalls 0.5 wallSample 100 5) \<le> length (findCallWalls 0.05 wallSample 100 5)
   \<and> length (findPutWalls 0.5 wallSample 100 5) \<le> length (findPutWalls 0.05 wallSample 100 5)
   \<and> length (findCallWalls 0.05 wallSample 100 5) = 2
   \<and> length (findCallWalls 0.5 wallSample 100 5) = 1"
proof -
  have le: "(0.05 :: real) \<le> 0.5" by simp
  have fin: "\<forall>ge \<in> set wallSample. callGamma ge \<noteq> NInf" "\<forall>ge \<in> set wallSample. putGamma ge \<noteq> PInf"
    by (simp_all add: wallSample_def)
  have "length (findCallWalls 0.5 wallSample 100 5) \<le> length (findCallWalls 0.05 wallSample 100 5)"
    "length (findPutWalls 0.5 wallSample 100 5) \<le> length (findPutWalls 0.05 wallSample 100 5)"
    using wall_count_antitone_in_threshold
      [OF le, where ges = wallSample and spot = 100 and maxWalls = 5] fin by blast+
  moreover have "length (findCallWalls 0.05 wallSample 100 5) = 2"
    by (simp add: findCallWalls_def wallSample_def Let_def js_sort_def js_sub_def js_slice0_def
        zero_jsnum_def)
  moreover have "length (findCallWalls 0.5 wallSample 100 5) = 1"
    by (simp add: findCallWalls_def wallSample_def Let_def js_sort_def js_sub_def js_slice0_def
        zero_jsnum_def)
  ultimately show ?thesis by simp
qed


section \<open>Properties of the expected-move averages\<close>

text \<open>
  The claim that the ATM statistics are a function of the explicit inputs alone fails:
  \<open>getAverageIVAndDTE\<close> has no spot parameter and reads \<^verbatim>\<open>window.currentPrice\<close>. On the
  same eleven contracts the ATM implied volatility is 0.2 when that global is 100 and
  0.23 when it is 500.
\<close>

theorem atm_statistics_depend_on_ambient_price:
  "atmIV (getAverageIVAndDTE \<lparr> currentPrice = Some (Fin 100) \<rparr> (Some elevenContracts)) = Fin 0.2
   \<and> atmIV (getAverageIVAndDTE \<lparr> currentPrice = Some (Fin 500) \<rparr> (Some elevenContracts)) = Fin 0.23"
  by (simp add: getAverageIVAndDTE_def Let_def elevenContracts_def farContract_def sampleCall_def
      ambientPrice_def js_sort_def js_sub_def)

text \<open>
  C1 (amended). \<open>getAverageIVAndDTE\<close> takes the contract list only and reads the spot
  from the global \<^verbatim>\<open>window.currentPrice\<close>, with 450 in its place when it is absent, zero
  or \<^verbatim>\<open>NaN\<close>. Its result is a function of the contract list and of that value: two
  program states that agree on it give the same result, and the overall average implied
  volatility and the average days to expiry do not depend on the state at all.
\<close>

theorem getAverageIVAndDTE_reads_only_ambient_price:
  "(ambientPrice w1 = ambientPrice w2 \<longrightarrow> getAverageIVAndDTE w1 cs = getAverageIVAndDTE w2 cs)
   \<and> overallAvgIV (getAverageIVAndDTE w1 cs) = overallAvgIV (getAverageIVAndDTE w2 cs)
   \<and> avgDTE (getAverageIVAndDTE w1 cs) = avgDTE (getAverageIVAndDTE w2 cs)"
proof (intro conjI impI)
  assume "ambientPrice w1 = ambientPrice w2"
  then show "getAverageIVAndDTE w1 cs = getAverageIVAndDTE w2 cs"
    by (simp only: getAverageIVAndDTE_def)
next
  show "overallAvgIV (getAverageIVAndDTE w1 cs) = overallAvgIV (getAverageIVAndDTE w2 cs)"
    by (simp add: getAverageIVAndDTE_def Let_def split: option.splits)
next
  show "avgDTE (getAverageIVAndDTE w1 cs) = avgDTE (getAverageIVAndDTE w2 cs)"
    by (simp add: getAverageIVAndDTE_def Let_def split: option.splits)
qed

theorem getAverageIVAndDTE_reads_only_ambient_price_witness:
  "getAverageIVAndDTE \<lparr> currentPrice = None \<rparr> (Some elevenContracts)
   = getAverageIVAndDTE \<lparr> currentPrice = Some (Fin 0) \<rparr> (Some elevenContracts)"
  using getAverageIVAndDTE_reads_only_ambient_price
    [of "\<lparr> currentPrice = None \<rparr>" "\<lparr> currentPrice = Some (Fin 0) \<rparr>" "Some elevenContracts"]
  by (simp add: ambientPrice_def)

text \<open>
  C10. Called with \<^verbatim>\<open>null\<close> (or \<^verbatim>\<open>undefined\<close>) or with the empty list,
  \<open>getAverageIVAndDTE\<close> returns the record of three zeros, whatever the state: no
  error, no \<^verbatim>\<open>NaN\<close>.
\<close>

theorem getAverageIVAndDTE_empty:
  "getAverageIVAndDTE w None = \<lparr> atmIV = Fin 0, overallAvgIV = Fin 0, avgDTE = Fin 0 \<rparr>
   \<and> getAverageIVAndDTE w (Some []) = \<lparr> atmIV = Fin 0, overallAvgIV = Fin 0, avgDTE = Fin 0 \<rparr>"
  by (simp add: getAverageIVAndDTE_def)

end
